theory Spec2Isabelle
  imports Main "HOL-Library.Word" "HOL-Library.AList" "HOL-Library.Sublist"
begin

unbundle bit_operations_syntax

section \<open>Task identifiers (lib/rdfvalues/flows.py)\<close>

text \<open>
  Python integers are unbounded, so every number of the source is an \<open>int\<close>; the masks
  \<open>& 0xFFFFFFFF\<close> and \<open>& 0x1FFFFFFF\<close> and the shifts are the bit operations on \<open>int\<close>
  (two's complement of unbounded width, as in Python).

  The class attributes \<open>Task.next_id_base\<close> and \<open>GrrMessage.next_id_base\<close> are process-wide
  state.  The record \<open>process\<close> holds both, together with the list of the effects an
  allocation performs on the shared state, in program order: taking and releasing a
  class's \<open>lock\<close>, reading and writing a class's \<open>next_id_base\<close>, and \<open>time.sleep(0.001)\<close>.
\<close>

datatype owner = Task_class | GrrMessage_class

datatype event =
    Acquire owner
  | Release owner
  | ReadBase owner
  | WriteBase owner int
  | Sleep

record process =
  Task_next_id_base :: int
  GrrMessage_next_id_base :: int
  events :: "event list"

definition emit :: "event \<Rightarrow> process \<Rightarrow> process" where
  "emit e s = s\<lparr>events := events s @ [e]\<rparr>"

definition max_priority :: int where
  "max_priority = 7"

text \<open>
  The class attributes as the class bodies set them (lines 20 and 312): both counters
  start at \<open>0\<close>, and nothing has happened yet.
\<close>

definition process_start :: process where
  "process_start = \<lparr>Task_next_id_base = 0, GrrMessage_next_id_base = 0, events = []\<rparr>"

text \<open>
  The critical section shared by \<open>GrrMessage.GenerateTaskID\<close> (lines 48-55) and
  \<open>Task.__init__\<close> (lines 349-356): identical text in both places, always on
  \<open>Task.lock\<close> and \<open>Task.next_id_base\<close>.  \<open>random_number\<close> is \<open>utils.PRNG.GetUShort() + 1\<close>.
  It returns \<open>id_base\<close> and the process state after the \<open>with\<close> block.
\<close>

definition advance_id_base :: "process \<Rightarrow> int \<Rightarrow> int \<times> process" where
  "advance_id_base s random_number =
     (let s1 = emit (Acquire Task_class) s;
          next_id_base = Task_next_id_base s1;
          s2 = emit (ReadBase Task_class) s1;
          id_base = (next_id_base + random_number) AND 0xFFFFFFFF;
          s3 = (if id_base < next_id_base then emit Sleep s2 else s2);
          s4 = emit (WriteBase Task_class id_base) (s3\<lparr>Task_next_id_base := id_base\<rparr>);
          s5 = emit (Release Task_class) s4
      in (id_base, s5))"

text \<open>
  \<open>GrrMessage.GenerateTaskID\<close>.  \<open>ushort\<close> is the value drawn by \<open>utils.PRNG.GetUShort()\<close>,
  \<open>now_ms\<close> is \<open>long(time.time() * 1000)\<close>, \<open>priority\<close> is \<open>self.priority\<close>.
\<close>

definition GenerateTaskID :: "process \<Rightarrow> int \<Rightarrow> int \<Rightarrow> int \<Rightarrow> int \<times> process" where
  "GenerateTaskID s ushort now_ms priority =
     (let random_number = ushort + 1;
          (id_base, s') = advance_id_base s random_number;
          time_base = push_bit 32 (now_ms AND 0x1FFFFFFF);
          priority_prefix = max_priority - priority;
          task_id = time_base OR id_base;
          task_id = task_id OR push_bit 61 priority_prefix
      in (task_id, s'))"

text \<open>
  The identifier part of the deprecated \<open>Task.__init__\<close> (lines 346-361): \<open>cur_id\<close> is
  \<open>self.id\<close> as the base initialiser left it, and the result is \<open>self.id\<close> afterwards.
\<close>

definition Task_init_id :: "process \<Rightarrow> int \<Rightarrow> int \<Rightarrow> int \<Rightarrow> int \<times> process" where
  "Task_init_id s cur_id ushort now_ms =
     (if cur_id = 0 then
        (let random_number = ushort + 1;
             (id_base, s') = advance_id_base s random_number;
             time_base = push_bit 32 (now_ms AND 0xFFFFFFFF)
         in (time_base + id_base, s'))
      else (cur_id, s))"

text \<open>
  A check on a list of effects: every read and write of \<open>Task.next_id_base\<close> happens while
  \<open>Task.lock\<close> is held, the lock is not taken twice, and \<open>GrrMessage.next_id_base\<close> and
  \<open>GrrMessage.lock\<close> are never touched.  The flag says whether \<open>Task.lock\<close> is held.
\<close>

fun guarded :: "bool \<Rightarrow> event list \<Rightarrow> bool" where
  "guarded held [] = (\<not> held)"
| "guarded held (Acquire Task_class # es) = (\<not> held \<and> guarded True es)"
| "guarded held (Release Task_class # es) = (held \<and> guarded False es)"
| "guarded held (ReadBase Task_class # es) = (held \<and> guarded held es)"
| "guarded held (WriteBase Task_class v # es) = (held \<and> guarded held es)"
| "guarded held (Sleep # es) = guarded held es"
| "guarded held (Acquire GrrMessage_class # es) = False"
| "guarded held (Release GrrMessage_class # es) = False"
| "guarded held (ReadBase GrrMessage_class # es) = False"
| "guarded held (WriteBase GrrMessage_class v # es) = False"

section \<open>Exceptions, byte strings and Python values\<close>

text \<open>
  The exceptions the modelled code raises.  \<open>Unregistered\<close> is the
  \<open>AttributeError("Can not assign to state without calling Register() first")\<close> of
  \<open>FlowState.__setattr__\<close>; \<open>AttributeError\<close> and \<open>TypeError\<close> are the ones Python itself
  raises for a missing attribute and for an operation a type does not support.
\<close>

datatype exn =
    AttributeError
  | Unregistered
  | TypeError
  | RuntimeError
  | DecodeError
  | EOFError

type_synonym bytes = string

text \<open>
  The values a flow keeps in its state.  \<open>PyDataObject\<close> is an instance of \<open>DataObject\<close>, the
  \<open>dict\<close> subclass of lines 128-158, with its items as an association list (attribute
  names are the keys).  None of the modelled operations observes the order of the items.
\<close>

datatype pyval =
    PyNone
  | PyBool bool
  | PyInt int
  | PyStr string
  | PyList "pyval list"
  | PyDataObject "(string \<times> pyval) list"

text \<open>\<open>bool(v)\<close>: \<open>DataObject\<close> defines neither \<open>__nonzero__\<close> nor \<open>__len__\<close>, so it is \<open>dict\<close>'s.\<close>

fun py_bool :: "pyval \<Rightarrow> bool" where
  "py_bool PyNone = False"
| "py_bool (PyBool b) = b"
| "py_bool (PyInt i) = (i \<noteq> 0)"
| "py_bool (PyStr s) = (s \<noteq> [])"
| "py_bool (PyList xs) = (xs \<noteq> [])"
| "py_bool (PyDataObject kvs) = (kvs \<noteq> [])"

text \<open>\<open>len(v)\<close>.\<close>

fun py_len :: "pyval \<Rightarrow> exn + nat" where
  "py_len (PyStr s) = Inr (length s)"
| "py_len (PyList xs) = Inr (length xs)"
| "py_len (PyDataObject kvs) = Inr (length kvs)"
| "py_len v = Inl TypeError"

text \<open>\<open>item in v\<close> for a string \<open>item\<close>.\<close>

fun py_contains :: "string \<Rightarrow> pyval \<Rightarrow> exn + bool" where
  "py_contains item (PyStr s) = Inr (sublist item s)"
| "py_contains item (PyList xs) = Inr (PyStr item \<in> set xs)"
| "py_contains item (PyDataObject kvs) = Inr (item \<in> fst ` set kvs)"
| "py_contains item v = Inl TypeError"

section \<open>DataObject (lines 128-141)\<close>

text \<open>\<open>DataObject.Register\<close> and \<open>DataObject.__setattr__\<close>: both are \<open>self[item] = value\<close>.\<close>

definition DataObject_Register ::
  "(string \<times> pyval) list \<Rightarrow> string \<Rightarrow> pyval \<Rightarrow> (string \<times> pyval) list" where
  "DataObject_Register self item v = AList.update item v self"

definition DataObject_setattr ::
  "(string \<times> pyval) list \<Rightarrow> string \<Rightarrow> pyval \<Rightarrow> (string \<times> pyval) list" where
  "DataObject_setattr self item v = AList.update item v self"

text \<open>\<open>DataObject.__getattr__\<close>: \<open>self[item]\<close>, a \<open>KeyError\<close> turned into \<open>AttributeError\<close>.\<close>

definition DataObject_getattr :: "(string \<times> pyval) list \<Rightarrow> string \<Rightarrow> exn + pyval" where
  "DataObject_getattr self item =
     (case map_of self item of Some v \<Rightarrow> Inr v | None \<Rightarrow> Inl AttributeError)"

text \<open>
  \<open>setattr(obj, item, value)\<close>, \<open>obj.context\<close> and \<open>obj.get(item, default)\<close> on a value: a
  \<open>DataObject\<close> answers with the methods above and with \<open>dict.get\<close>; the built-in types have
  no such attribute and accept none (assigning \<open>__class__\<close> on them is a \<open>TypeError\<close>).
\<close>

fun py_setattr :: "pyval \<Rightarrow> string \<Rightarrow> pyval \<Rightarrow> exn + pyval" where
  "py_setattr (PyDataObject kvs) item v = Inr (PyDataObject (DataObject_setattr kvs item v))"
| "py_setattr obj item v = Inl (if item = ''__class__'' then TypeError else AttributeError)"

fun py_context :: "pyval \<Rightarrow> exn + pyval" where
  "py_context (PyDataObject kvs) = DataObject_getattr kvs ''context''"
| "py_context obj = Inl AttributeError"

fun py_get :: "pyval \<Rightarrow> string \<Rightarrow> pyval \<Rightarrow> exn + pyval" where
  "py_get (PyDataObject kvs) item dflt =
     Inr (case map_of kvs item of Some v \<Rightarrow> v | None \<Rightarrow> dflt)"
| "py_get obj item dflt = Inl AttributeError"

section \<open>FlowState (lines 161-232)\<close>

text \<open>
  A \<open>FlowState\<close> instance is its instance dictionary \<open>__dict__\<close>.  The names the class body
  defines are \<open>FlowState_class_attrs\<close>; the names \<open>FlowState\<close> inherits from
  \<open>rdfvalue.RDFValue\<close> and \<open>object\<close> are not in this file and are the parameter \<open>inherited\<close>
  (the names \<open>n\<close> with \<open>getattr(FlowState, n, -1) != -1\<close>).
\<close>

type_synonym FlowState = "(string \<times> pyval) list"

definition FlowState_class_attrs :: "string list" where
  "FlowState_class_attrs =
     [''__module__'', ''__doc__'', ''data_store_type'', ''data'', ''__init__'',
      ''ParseFromString'', ''SerializeToString'', ''Empty'', ''__len__'', ''get'',
      ''Register'', ''__setattr__'', ''__getattr__'', ''__str__'', ''__eq__'', ''__dir__'']"

text \<open>\<open>getattr(self.__class__, item, -1) != -1\<close>.\<close>

definition has_class_attr :: "string list \<Rightarrow> string \<Rightarrow> bool" where
  "has_class_attr inherited item =
     (item \<in> set FlowState_class_attrs \<or> item \<in> set inherited)"

text \<open>\<open>object.__setattr__(self, item, value)\<close>.\<close>

definition object_setattr :: "FlowState \<Rightarrow> string \<Rightarrow> pyval \<Rightarrow> FlowState" where
  "object_setattr self item v = AList.update item v self"

text \<open>\<open>self.data\<close>: the instance attribute, else the class attribute \<open>data = None\<close>.\<close>

definition self_data :: "FlowState \<Rightarrow> pyval" where
  "self_data self = (case map_of self ''data'' of Some v \<Rightarrow> v | None \<Rightarrow> PyNone)"

text \<open>
  \<open>FlowState.__init__\<close> with no initializer: line 177 assigns a new \<open>DataObject()\<close> to
  \<open>self.data\<close> (a class member, so \<open>__setattr__\<close> assigns it normally); line 178 hands over to
  \<open>rdfvalue.RDFValue.__init__\<close>, which has nothing to parse.
\<close>

definition FlowState_init :: FlowState where
  "FlowState_init = object_setattr [] ''data'' (PyDataObject [])"

text \<open>\<open>FlowState.__setattr__\<close> (lines 201-210).\<close>

definition FlowState_setattr ::
  "string list \<Rightarrow> FlowState \<Rightarrow> string \<Rightarrow> pyval \<Rightarrow> exn + FlowState" where
  "FlowState_setattr inherited self item v =
     (if has_class_attr inherited item \<or> item \<in> fst ` set self then
        Inr (object_setattr self item v)
      else
        (case py_contains item (self_data self) of
           Inl e \<Rightarrow> Inl e
         | Inr True \<Rightarrow>
             (case py_setattr (self_data self) item v of
                Inl e \<Rightarrow> Inl e
              | Inr d \<Rightarrow> Inr (AList.update ''data'' d self))
         | Inr False \<Rightarrow> Inl Unregistered))"

text \<open>
  \<open>FlowState.Register\<close> (lines 198-199): \<open>setattr(self.data, item, value)\<close>.  The
  \<open>DataObject\<close> is changed in place, so \<open>self.data\<close> is the changed object afterwards.
\<close>

definition FlowState_Register :: "FlowState \<Rightarrow> string \<Rightarrow> pyval \<Rightarrow> exn + FlowState" where
  "FlowState_Register self item v =
     (case py_setattr (self_data self) item v of
        Inl e \<Rightarrow> Inl e
      | Inr d \<Rightarrow> Inr (AList.update ''data'' d self))"

text \<open>\<open>FlowState.get\<close> (lines 195-196).\<close>

definition FlowState_get :: "FlowState \<Rightarrow> string \<Rightarrow> pyval \<Rightarrow> exn + pyval" where
  "FlowState_get self item dflt = py_get (self_data self) item dflt"

text \<open>
  \<open>FlowState.Empty\<close> (lines 189-190): \<open>len(self.data) == 1 and not self.data.context\<close>;
  \<open>and\<close> does not evaluate its right operand when the left one is false.
\<close>

definition FlowState_Empty :: "FlowState \<Rightarrow> exn + bool" where
  "FlowState_Empty self =
     (case py_len (self_data self) of
        Inl e \<Rightarrow> Inl e
      | Inr n \<Rightarrow>
          if n = 1 then
            (case py_context (self_data self) of
               Inl e \<Rightarrow> Inl e
             | Inr c \<Rightarrow> Inr (\<not> py_bool c))
          else Inr False)"

text \<open>
  \<open>pickle.loads\<close> belongs to the Python library.  Its result on a non-empty string is the
  parameter \<open>unpickle\<close>; on the empty string it finds no opcode to read and raises
  \<open>EOFError\<close>.
\<close>

definition pickle_loads :: "(bytes \<Rightarrow> exn + pyval) \<Rightarrow> bytes \<Rightarrow> exn + pyval" where
  "pickle_loads unpickle string = (if string = [] then Inl EOFError else unpickle string)"

text \<open>
  \<open>FlowState.ParseFromString\<close> (lines 180-184): any exception of \<open>pickle.loads\<close> becomes
  \<open>DecodeError\<close>; the assignment to \<open>self.data\<close> goes through \<open>__setattr__\<close>.
\<close>

definition FlowState_ParseFromString ::
  "(bytes \<Rightarrow> exn + pyval) \<Rightarrow> string list \<Rightarrow> FlowState \<Rightarrow> bytes \<Rightarrow> exn + FlowState" where
  "FlowState_ParseFromString unpickle inherited self string =
     (case pickle_loads unpickle string of
        Inl e \<Rightarrow> Inl DecodeError
      | Inr v \<Rightarrow> FlowState_setattr inherited self ''data'' v)"


text \<open>
  A call \<open>self.name(...)\<close> looks \<open>name\<close> up on the instance before the class, and a function
  of the class is no data descriptor: an entry \<open>name\<close> of the instance dictionary (lines
  203-204 store one when a class member is assigned) hides the method.  What is stored
  is a value, no value of \<open>pyval\<close> can be called, and the call raises \<open>TypeError\<close>.
  \<open>result\<close> is what the method of the class returns.
\<close>

definition call_method :: "FlowState \<Rightarrow> string \<Rightarrow> exn + 'a \<Rightarrow> exn + 'a" where
  "call_method self name result = (if name \<in> fst ` set self then Inl TypeError else result)"

text \<open>
  The scenario \<open>state.Register(item, v0); state.item = v; state.get(item, default)\<close> on a
  container (\<open>Set\<close> is the attribute assignment; \<open>__setattr__\<close> is looked up on the class).
\<close>

definition Register_Set_Get ::
  "string list \<Rightarrow> FlowState \<Rightarrow> string \<Rightarrow> pyval \<Rightarrow> pyval \<Rightarrow> pyval \<Rightarrow> exn + pyval" where
  "Register_Set_Get inherited self item v0 v dflt =
     (case call_method self ''Register'' (FlowState_Register self item v0) of
        Inl e \<Rightarrow> Inl e
      | Inr s1 \<Rightarrow>
          (case FlowState_setattr inherited s1 item v of
             Inl e \<Rightarrow> Inl e
           | Inr s2 \<Rightarrow> call_method s2 ''get'' (FlowState_get s2 item dflt)))"

text \<open>
  The scenario \<open>state.item = v; state.Register(item, v0); state.get(item, default)\<close>.
\<close>

definition Set_Register_Get ::
  "string list \<Rightarrow> FlowState \<Rightarrow> string \<Rightarrow> pyval \<Rightarrow> pyval \<Rightarrow> pyval \<Rightarrow> exn + pyval" where
  "Set_Register_Get inherited self item v v0 dflt =
     (case FlowState_setattr inherited self item v of
        Inl e \<Rightarrow> Inl e
      | Inr s1 \<Rightarrow>
          (case call_method s1 ''Register'' (FlowState_Register s1 item v0) of
             Inl e \<Rightarrow> Inl e
           | Inr s2 \<Rightarrow> call_method s2 ''get'' (FlowState_get s2 item dflt)))"

section \<open>GrrMessage (lines 15-92)\<close>

text \<open>
  The fields of the message the modelled code reads and writes.  An unset \<open>task_id\<close> reads
  as \<open>0\<close> and an unset \<open>args_rdf_name\<close> as the empty string.
\<close>

record GrrMessage =
  task_id :: int
  priority :: int
  args :: bytes
  args_age :: "int option"
  args_rdf_name :: string




text \<open>
  A decoded payload is either an \<open>RDFString\<close> (its age and its bytes) or an object of a
  registered class.  A class is what the getter does with it: \<open>result_cls(age=...)\<close>
  followed by \<open>ParseFromString\<close>, which may raise.  The registry \<open>self.classes\<close> is not in
  this file and is a parameter.
\<close>

datatype 'v rdfvalue = RDFString "int option" bytes | Registered 'v

type_synonym 'v rdf_class = "int option \<Rightarrow> bytes \<Rightarrow> exn + 'v rdfvalue"

text \<open>
  Modelled from the spec: \<open>rdfvalue.RDFString\<close>, the class used when the name is not
  registered, is not in this file; the spec calls it a generic opaque-string value type
  that is never an error, so parsing keeps the bytes as they are.
\<close>

definition RDFString_class :: "'v rdf_class" where
  "RDFString_class age string = Inr (RDFString age string)"

text \<open>
  The class \<open>FlowState\<close> as an entry of the registry: \<open>FlowState(age=...)\<close> followed by
  \<open>FlowState.ParseFromString\<close>.
\<close>

definition FlowState_class ::
  "(bytes \<Rightarrow> exn + pyval) \<Rightarrow> string list \<Rightarrow> (int option \<times> FlowState) rdf_class" where
  "FlowState_class unpickle inherited age string =
     (case FlowState_ParseFromString unpickle inherited FlowState_init string of
        Inl e \<Rightarrow> Inl e
      | Inr self \<Rightarrow> Inr (Registered (age, self)))"

text \<open>
  The \<open>payload\<close> getter (lines 67-77); a Python function that ends without \<open>return\<close>
  returns \<open>None\<close>.
\<close>

definition payload :: "(string \<rightharpoonup> 'v rdf_class) \<Rightarrow> GrrMessage \<Rightarrow> exn + 'v rdfvalue option" where
  "payload classes self =
     (if args_rdf_name self \<noteq> [] then
        (let result_cls = (case classes (args_rdf_name self) of
                             Some c \<Rightarrow> c
                           | None \<Rightarrow> RDFString_class)
         in case result_cls (args_age self) (args self) of
              Inl e \<Rightarrow> Inl e
            | Inr result \<Rightarrow> Inr (Some result))
      else Inr None)"

section \<open>Arithmetic of the bit fields\<close>

lemma and_mask32_mod: "(x::int) AND 0xFFFFFFFF = x mod 2 ^ 32"
proof -
  have m: "(0xFFFFFFFF::int) = mask 32" by (simp add: mask_eq_exp_minus_1)
  show ?thesis by (simp only: m take_bit_eq_mask [symmetric] take_bit_eq_mod)
qed

lemma and_mask29_mod: "(x::int) AND 0x1FFFFFFF = x mod 2 ^ 29"
proof -
  have m: "(0x1FFFFFFF::int) = mask 29" by (simp add: mask_eq_exp_minus_1)
  show ?thesis by (simp only: m take_bit_eq_mask [symmetric] take_bit_eq_mod)
qed

lemma or_push_bit_add:
  fixes x y :: int
  assumes "0 \<le> x" and "x < 2 ^ n"
  shows "x OR push_bit n y = x + y * 2 ^ n"
proof -
  have x: "take_bit n x = x"
    using assms by (simp add: take_bit_int_eq_self)
  have "take_bit n x + push_bit n y = take_bit n x OR push_bit n y"
    by (rule disjunctive_add) (auto simp: bit_take_bit_iff bit_push_bit_iff)
  then show ?thesis
    by (simp add: x push_bit_eq_mult)
qed


section \<open>The critical section\<close>

lemma advance_fst: "fst (advance_id_base s rn) = (Task_next_id_base s + rn) mod 2 ^ 32"
  by (simp add: advance_id_base_def Let_def emit_def and_mask32_mod)

lemma advance_base: "Task_next_id_base (snd (advance_id_base s rn)) = (Task_next_id_base s + rn) mod 2 ^ 32"
  by (simp add: advance_id_base_def Let_def emit_def and_mask32_mod)

lemma advance_other: "GrrMessage_next_id_base (snd (advance_id_base s rn)) = GrrMessage_next_id_base s"
  by (simp add: advance_id_base_def Let_def emit_def)

lemma advance_events: "events (snd (advance_id_base s rn)) = events s @
   [Acquire Task_class, ReadBase Task_class] @
   (if (Task_next_id_base s + rn) mod 2 ^ 32 < Task_next_id_base s then [Sleep] else []) @
   [WriteBase Task_class ((Task_next_id_base s + rn) mod 2 ^ 32), Release Task_class]"
  by (simp add: advance_id_base_def Let_def emit_def and_mask32_mod)

lemma GenerateTaskID_fst:
  "fst (GenerateTaskID s u t p) =
     (7 - p) * 2 ^ 61 + (t mod 2 ^ 29) * 2 ^ 32 + (Task_next_id_base s + (u + 1)) mod 2 ^ 32"
proof -
  define b where "b = (Task_next_id_base s + (u + 1)) mod (2::int) ^ 32"
  define tb where "tb = t mod (2::int) ^ 29"
  have b: "0 \<le> b" "b < 2 ^ 32" by (simp_all add: b_def)
  have tb: "0 \<le> tb" "tb < 2 ^ 29" by (simp_all add: tb_def)
  have 1: "push_bit 32 tb OR b = b + tb * 2 ^ 32"
    using or_push_bit_add [OF b, of tb] by (simp add: or.commute)
  have "tb * 2 ^ 32 \<le> (2 ^ 29 - 1) * (2::int) ^ 32"
    using tb by (intro mult_right_mono) simp_all
  then have 2: "0 \<le> b + tb * 2 ^ 32" "b + tb * 2 ^ 32 < 2 ^ 61"
    using b tb by simp_all
  have 3: "(b + tb * 2 ^ 32) OR push_bit 61 (7 - p) = (b + tb * 2 ^ 32) + (7 - p) * 2 ^ 61"
    by (rule or_push_bit_add [OF 2])
  have "fst (GenerateTaskID s u t p) = (push_bit 32 tb OR b) OR push_bit 61 (7 - p)"
    unfolding b_def tb_def
    by (simp add: GenerateTaskID_def Let_def split_beta advance_fst and_mask29_mod
        max_priority_def)
  also have "\<dots> = (b + tb * 2 ^ 32) + (7 - p) * 2 ^ 61"
    by (simp only: 1 3)
  finally show ?thesis
    unfolding b_def tb_def by (simp only: add.commute add.left_commute)
qed


lemma GenerateTaskID_snd: "snd (GenerateTaskID s u t p) = snd (advance_id_base s (u + 1))"
  by (simp add: GenerateTaskID_def Let_def split_beta)

lemma low_fields_bound:
  fixes t x :: int
  shows "0 \<le> (t mod 2 ^ 29) * 2 ^ 32 + x mod 2 ^ 32"
    and "(t mod 2 ^ 29) * 2 ^ 32 + x mod 2 ^ 32 < 2 ^ 61"
proof -
  have "(t mod 2 ^ 29) * 2 ^ 32 \<le> (2 ^ 29 - 1) * (2::int) ^ 32"
    by (intro mult_right_mono) simp_all
  moreover have "x mod 2 ^ 32 < (2::int) ^ 32" by simp
  ultimately show "(t mod 2 ^ 29) * 2 ^ 32 + x mod 2 ^ 32 < 2 ^ 61" by simp
  show "0 \<le> (t mod 2 ^ 29) * 2 ^ 32 + x mod 2 ^ 32" by simp
qed

section \<open>Claims about the identifier\<close>

text \<open>
  Claim C1.  Two identifiers minted by \<open>GrrMessage.GenerateTaskID\<close> at different
  priorities, both in \<open>[0,7]\<close>: the one minted at the higher priority \<open>pb\<close> is numerically
  smaller than the one minted at the lower priority \<open>pa\<close>, whatever the two process
  states (allocation bases), the two random draws and the two timestamps are; in
  particular when they are the same.
\<close>

theorem GenerateTaskID_priority_order:
  assumes "0 \<le> pa" and "pa < pb" and "pb \<le> 7"
  shows "fst (GenerateTaskID sb ub tb pb) < fst (GenerateTaskID sa ua ta pa)"
proof -
  define xa where "xa = (ta mod 2 ^ 29) * 2 ^ 32 + (Task_next_id_base sa + (ua + 1)) mod 2 ^ 32"
  define xb where "xb = (tb mod 2 ^ 29) * 2 ^ 32 + (Task_next_id_base sb + (ub + 1)) mod 2 ^ 32"
  have ba: "0 \<le> xa" unfolding xa_def by (rule low_fields_bound)
  have bb: "xb < 2 ^ 61" unfolding xb_def by (rule low_fields_bound)
  have "7 - pb + 1 \<le> 7 - pa" using assms by simp
  then have "(7 - pb + 1) * 2 ^ 61 \<le> (7 - pa) * (2::int) ^ 61"
    by (rule mult_right_mono) simp
  then have "(7 - pb) * 2 ^ 61 + xb < (7 - pa) * 2 ^ 61 + xa"
    using ba bb by (simp add: algebra_simps)
  then show ?thesis
    by (simp only: GenerateTaskID_fst xa_def xb_def add.assoc)
qed

theorem GenerateTaskID_priority_order_witness:
  "(0::int) \<le> 0 \<and> (0::int) < 7 \<and> (7::int) \<le> 7
   \<and> fst (GenerateTaskID process_start 5 1000 7) < fst (GenerateTaskID process_start 5 1000 0)"
proof -
  have h: "(0::int) \<le> 0" "(0::int) < 7" "(7::int) \<le> 7" by simp_all
  show ?thesis
    using h GenerateTaskID_priority_order [OF h, of process_start 5 1000 process_start 5 1000]
    by simp
qed

text \<open>
  Claim C2.  For a priority \<open>p\<close> in \<open>[0,7]\<close>, a time \<open>t\<close> in milliseconds and the
  allocation base \<open>b\<close> the call commits (which lies in \<open>[0, 2^32)\<close>), the identifier is
  \<open>((7 - p) << 61) | ((t mod 2^29) << 32) | b\<close>; it is a 64-bit value whose bits 63-61
  are \<open>7 - p\<close>, a number in \<open>[0,7]\<close>.
\<close>

theorem GenerateTaskID_layout:
  assumes "0 \<le> p" and "p \<le> 7"
  shows "(let (task_id, s') = GenerateTaskID s u t p; b = Task_next_id_base s' in
           task_id = push_bit 61 (7 - p) OR push_bit 32 (t mod 2 ^ 29) OR b
         \<and> 0 \<le> b \<and> b < 2 ^ 32
         \<and> 0 \<le> task_id \<and> task_id < 2 ^ 64
         \<and> drop_bit 61 task_id = 7 - p
         \<and> 0 \<le> drop_bit 61 task_id \<and> drop_bit 61 task_id \<le> 7)"
proof -
  define b where "b = (Task_next_id_base s + (u + 1)) mod (2::int) ^ 32"
  define x where "x = (t mod 2 ^ 29) * 2 ^ 32 + b"
  have sb: "Task_next_id_base (snd (GenerateTaskID s u t p)) = b"
    by (simp only: GenerateTaskID_snd advance_base b_def)
  have f: "fst (GenerateTaskID s u t p) = (7 - p) * 2 ^ 61 + x"
    by (simp only: GenerateTaskID_fst x_def b_def add.assoc)
  have x: "0 \<le> x" "x < 2 ^ 61"
    unfolding x_def b_def by (rule low_fields_bound)+
  have layout: "fst (GenerateTaskID s u t p) = push_bit 61 (7 - p) OR push_bit 32 (t mod 2 ^ 29) OR b"
    unfolding b_def
    by (simp add: GenerateTaskID_def Let_def split_beta advance_fst and_mask29_mod
        max_priority_def or.commute or.left_commute)
  have "(7 - p) * 2 ^ 61 \<le> 7 * (2::int) ^ 61"
    using assms by (intro mult_right_mono) simp_all
  then have hi: "(7 - p) * 2 ^ 61 + x < 2 ^ 64" using x by simp
  have "0 \<le> (7 - p) * (2::int) ^ 61" using assms by simp
  then have lo: "0 \<le> (7 - p) * 2 ^ 61 + x" using x by simp
  have "((7 - p) * 2 ^ 61 + x) div 2 ^ 61 = 7 - p"
    using x by (simp add: div_pos_pos_trivial)
  then have d: "drop_bit 61 (fst (GenerateTaskID s u t p)) = 7 - p"
    by (simp only: f drop_bit_eq_div)
  have bb: "0 \<le> b" "b < 2 ^ 32" by (simp_all add: b_def)
  show ?thesis
    using layout sb d bb lo hi assms
    by (simp add: split_beta Let_def f)
qed

theorem GenerateTaskID_layout_witness:
  "(0::int) \<le> 3 \<and> (3::int) \<le> 7
   \<and> fst (GenerateTaskID process_start 5 1000 3) = push_bit 61 4 OR push_bit 32 1000 OR 6
   \<and> drop_bit 61 (fst (GenerateTaskID process_start 5 1000 3)) = 4"
proof -
  have h: "(0::int) \<le> 3" "(3::int) \<le> 7" by simp_all
  have b: "Task_next_id_base (snd (GenerateTaskID process_start 5 1000 3)) = 6"
    by (simp add: GenerateTaskID_snd advance_base process_start_def)
  show ?thesis
    using h b GenerateTaskID_layout [OF h, of process_start 5 1000]
    by (simp add: split_beta Let_def)
qed

text \<open>
  Claim C8.  From a base \<open>b\<close> in \<open>[0, 2^32)\<close> and a random 16-bit draw \<open>r\<close>, one
  allocation leaves \<open>Task.next_id_base\<close> at exactly \<open>(b + (r + 1)) mod 2^32\<close>.  The step
  \<open>r + 1\<close> is positive, so the base changes.  The new base is below the old one exactly
  when the sum passes \<open>2^32\<close>; the call then sleeps inside the lock, and writes the same
  wrapped value.
\<close>

theorem GenerateTaskID_advances_base:
  assumes "0 \<le> b" and "b < 2 ^ 32" and "0 \<le> r" and "r < 2 ^ 16"
    and "Task_next_id_base s = b"
  shows "(let s' = snd (GenerateTaskID s r t p); b' = Task_next_id_base s' in
           b' = (b + (r + 1)) mod 2 ^ 32
         \<and> 0 < r + 1 \<and> b' \<noteq> b
         \<and> (b' < b \<longleftrightarrow> 2 ^ 32 \<le> b + (r + 1))
         \<and> events s' = events s @ [Acquire Task_class, ReadBase Task_class] @
               (if b' < b then [Sleep] else []) @ [WriteBase Task_class b', Release Task_class])"
proof -
  define b' where "b' = (b + (r + 1)) mod 4294967296"
  have n: "0 \<le> b" "b < 4294967296" "0 \<le> r" "r < 65536"
    using assms by simp_all
  have sb: "Task_next_id_base (snd (GenerateTaskID s r t p)) = b'"
    by (simp add: GenerateTaskID_snd advance_base b'_def assms(5))
  have ev: "events (snd (GenerateTaskID s r t p)) = events s @ [Acquire Task_class, ReadBase Task_class] @
               (if b' < b then [Sleep] else []) @ [WriteBase Task_class b', Release Task_class]"
    by (simp add: GenerateTaskID_snd advance_events b'_def assms(5))
  have bb: "0 \<le> b'" "b' < 4294967296" by (simp_all add: b'_def)
  have cases: "b' = b + (r + 1) \<or> b' = b + (r + 1) - 4294967296"
  proof (cases "b + (r + 1) < 4294967296")
    case True
    then have "(b + (r + 1)) mod 4294967296 = b + (r + 1)"
      using n by (intro mod_pos_pos_trivial) linarith+
    then have "b' = b + (r + 1)" by (simp only: b'_def)
    then show ?thesis by (rule disjI1)
  next
    case False
    then have "0 \<le> b + (r + 1) - 4294967296" "b + (r + 1) - 4294967296 < 4294967296"
      using n by linarith+
    then have "(b + (r + 1) - 4294967296) mod 4294967296 = b + (r + 1) - 4294967296"
      by (rule mod_pos_pos_trivial)
    moreover have "(b + (r + 1) - 4294967296) mod 4294967296 = (b + (r + 1)) mod 4294967296"
      by (rule minus_mod_self2)
    ultimately have "b' = b + (r + 1) - 4294967296" by (simp only: b'_def)
    then show ?thesis by (rule disjI2)
  qed
  have ne: "b' \<noteq> b" using cases n by linarith
  have wrap: "b' < b \<longleftrightarrow> 4294967296 \<le> b + (r + 1)"
    using cases n bb by linarith
  have pos: "0 < r + 1" using n by linarith
  have main: "b' = (b + (r + 1)) mod 2 ^ 32 \<and> 0 < r + 1 \<and> b' \<noteq> b
         \<and> (b' < b \<longleftrightarrow> 2 ^ 32 \<le> b + (r + 1))
         \<and> events (snd (GenerateTaskID s r t p)) = events s @ [Acquire Task_class, ReadBase Task_class] @
               (if b' < b then [Sleep] else []) @ [WriteBase Task_class b', Release Task_class]"
    using ne wrap pos ev by (simp add: b'_def)
  show ?thesis
    unfolding Let_def sb by (rule main)
qed

theorem GenerateTaskID_advances_base_witness:
  "(0::int) \<le> 4294967295 \<and> (4294967295::int) < 2 ^ 32 \<and> (0::int) \<le> 65535 \<and> (65535::int) < 2 ^ 16
   \<and> Task_next_id_base (process_start\<lparr>Task_next_id_base := 4294967295\<rparr>) = 4294967295
   \<and> Task_next_id_base
        (snd (GenerateTaskID (process_start\<lparr>Task_next_id_base := 4294967295\<rparr>) 65535 1000 3)) = 65535
   \<and> events (snd (GenerateTaskID (process_start\<lparr>Task_next_id_base := 4294967295\<rparr>) 65535 1000 3)) =
       [Acquire Task_class, ReadBase Task_class, Sleep, WriteBase Task_class 65535,
        Release Task_class]"
proof -
  have h: "(0::int) \<le> 4294967295" "(4294967295::int) < 2 ^ 32"
    "(0::int) \<le> 65535" "(65535::int) < 2 ^ 16"
    "Task_next_id_base (process_start\<lparr>Task_next_id_base := 4294967295\<rparr>) = 4294967295"
    by (simp_all add: process_start_def)
  show ?thesis
    using h GenerateTaskID_advances_base [OF h, of 1000 3]
    by (simp add: Let_def process_start_def)
qed


section \<open>One counter for both allocators\<close>

lemma advance_frame:
  "advance_id_base (s\<lparr>GrrMessage_next_id_base := x\<rparr>) rn =
     (fst (advance_id_base s rn), (snd (advance_id_base s rn))\<lparr>GrrMessage_next_id_base := x\<rparr>)"
  by (simp add: advance_id_base_def Let_def emit_def)

lemma advance_guarded:
  "guarded False (drop (length (events s)) (events (snd (advance_id_base s rn))))"
  by (simp add: advance_events)

lemma Task_init_id_snd: "snd (Task_init_id s 0 u t) = snd (advance_id_base s (u + 1))"
  by (simp add: Task_init_id_def Let_def split_beta)

text \<open>
  Claim C10.  \<open>GrrMessage.GenerateTaskID\<close> and the deprecated \<open>Task.__init__\<close> work on one
  counter and one lock.  An allocation of either kind leaves \<open>GrrMessage.next_id_base\<close> as
  it was and computes the same identifier whatever that attribute holds, so it never
  reads it; it advances \<open>Task.next_id_base\<close>; its effects on the shared state are a read
  and a write of \<open>Task.next_id_base\<close> between taking and releasing \<open>Task.lock\<close>, and nothing
  of \<open>GrrMessage\<close>; and an allocation of one kind starts from the base the other kind
  left.
\<close>

theorem shared_id_base_counter:
  "GrrMessage_next_id_base (snd (GenerateTaskID s u t p)) = GrrMessage_next_id_base s
   \<and> GenerateTaskID (s\<lparr>GrrMessage_next_id_base := x\<rparr>) u t p =
       (fst (GenerateTaskID s u t p), (snd (GenerateTaskID s u t p))\<lparr>GrrMessage_next_id_base := x\<rparr>)
   \<and> Task_next_id_base (snd (GenerateTaskID s u t p)) = (Task_next_id_base s + (u + 1)) mod 2 ^ 32
   \<and> drop (length (events s)) (events (snd (GenerateTaskID s u t p))) =
       [Acquire Task_class, ReadBase Task_class] @
       (if (Task_next_id_base s + (u + 1)) mod 2 ^ 32 < Task_next_id_base s then [Sleep] else []) @
       [WriteBase Task_class ((Task_next_id_base s + (u + 1)) mod 2 ^ 32), Release Task_class]
   \<and> guarded False (drop (length (events s)) (events (snd (GenerateTaskID s u t p))))
   \<and> GrrMessage_next_id_base (snd (Task_init_id s c u t)) = GrrMessage_next_id_base s
   \<and> Task_init_id (s\<lparr>GrrMessage_next_id_base := x\<rparr>) c u t =
       (fst (Task_init_id s c u t), (snd (Task_init_id s c u t))\<lparr>GrrMessage_next_id_base := x\<rparr>)
   \<and> Task_next_id_base (snd (Task_init_id s 0 u t)) = (Task_next_id_base s + (u + 1)) mod 2 ^ 32
   \<and> guarded False (drop (length (events s)) (events (snd (Task_init_id s 0 u t))))
   \<and> Task_next_id_base (snd (Task_init_id (snd (GenerateTaskID s u t p)) 0 u' t')) =
       ((Task_next_id_base s + (u + 1)) mod 2 ^ 32 + (u' + 1)) mod 2 ^ 32
   \<and> Task_next_id_base (snd (GenerateTaskID (snd (Task_init_id s 0 u t)) u' t' p')) =
       ((Task_next_id_base s + (u + 1)) mod 2 ^ 32 + (u' + 1)) mod 2 ^ 32"
proof -
  have frame: "GenerateTaskID (s\<lparr>GrrMessage_next_id_base := x\<rparr>) u t p =
       (fst (GenerateTaskID s u t p), (snd (GenerateTaskID s u t p))\<lparr>GrrMessage_next_id_base := x\<rparr>)"
    by (simp add: GenerateTaskID_def Let_def split_beta advance_frame)
  have ev: "drop (length (events s)) (events (snd (GenerateTaskID s u t p))) =
       [Acquire Task_class, ReadBase Task_class] @
       (if (Task_next_id_base s + (u + 1)) mod 2 ^ 32 < Task_next_id_base s then [Sleep] else []) @
       [WriteBase Task_class ((Task_next_id_base s + (u + 1)) mod 2 ^ 32), Release Task_class]"
    by (simp add: GenerateTaskID_snd advance_events)
  have tother: "GrrMessage_next_id_base (snd (Task_init_id s c u t)) = GrrMessage_next_id_base s"
    by (simp add: Task_init_id_def Let_def split_beta advance_other)
  have tframe: "Task_init_id (s\<lparr>GrrMessage_next_id_base := x\<rparr>) c u t =
       (fst (Task_init_id s c u t), (snd (Task_init_id s c u t))\<lparr>GrrMessage_next_id_base := x\<rparr>)"
    by (simp add: Task_init_id_def Let_def split_beta advance_frame)
  have rest: "GrrMessage_next_id_base (snd (GenerateTaskID s u t p)) = GrrMessage_next_id_base s"
    "Task_next_id_base (snd (GenerateTaskID s u t p)) = (Task_next_id_base s + (u + 1)) mod 2 ^ 32"
    "guarded False (drop (length (events s)) (events (snd (GenerateTaskID s u t p))))"
    "Task_next_id_base (snd (Task_init_id s 0 u t)) = (Task_next_id_base s + (u + 1)) mod 2 ^ 32"
    "guarded False (drop (length (events s)) (events (snd (Task_init_id s 0 u t))))"
    "Task_next_id_base (snd (Task_init_id (snd (GenerateTaskID s u t p)) 0 u' t')) =
       ((Task_next_id_base s + (u + 1)) mod 2 ^ 32 + (u' + 1)) mod 2 ^ 32"
    "Task_next_id_base (snd (GenerateTaskID (snd (Task_init_id s 0 u t)) u' t' p')) =
       ((Task_next_id_base s + (u + 1)) mod 2 ^ 32 + (u' + 1)) mod 2 ^ 32"
    unfolding GenerateTaskID_snd Task_init_id_snd advance_base advance_other
    using advance_guarded [of s "u + 1"] by (simp_all only: simp_thms)
  show ?thesis
    using frame ev tother tframe rest by (intro conjI)
qed

section \<open>Claims about FlowState\<close>

lemma self_data_update [simp]: "self_data (AList.update ''data'' d self) = d"
  by (simp add: self_data_def update_conv')

lemma data_is_class_attr: "has_class_attr inherited ''data''"
  by (simp add: has_class_attr_def FlowState_class_attrs_def)

lemma keys_update: "fst ` set (AList.update k v al) = insert k (fst ` set al)"
  by (simp add: AList.dom_update)

lemma FlowState_setattr_field:
  assumes "\<not> has_class_attr inherited f" and "f \<notin> fst ` set self"
    and "self_data self = PyDataObject d"
  shows "FlowState_setattr inherited self f v =
     (if f \<in> fst ` set d
      then Inr (AList.update ''data'' (PyDataObject (AList.update f v d)) self)
      else Inl Unregistered)"
  using assms by (simp add: FlowState_setattr_def DataObject_setattr_def)

lemma FlowState_Register_data:
  assumes "self_data self = PyDataObject d"
  shows "FlowState_Register self f v =
     Inr (AList.update ''data'' (PyDataObject (AList.update f v d)) self)"
  using assms by (simp add: FlowState_Register_def DataObject_setattr_def)

lemma py_len_one_context:
  "(py_len v = Inr 1 \<and> py_context v = Inr c) = (v = PyDataObject [(''context'', c)])"
proof (cases v)
  case (PyDataObject kvs)
  show ?thesis
  proof (cases kvs)
    case Nil
    with PyDataObject show ?thesis by simp
  next
    case (Cons kv rest)
    obtain k x where kv: "kv = (k, x)" by (cases kv)
    show ?thesis
      using PyDataObject Cons kv
      by (auto simp: DataObject_getattr_def split: if_splits)
  qed
qed simp_all

lemma FlowState_Empty_True:
  "(FlowState_Empty self = Inr True) =
     (\<exists>c. self_data self = PyDataObject [(''context'', c)] \<and> \<not> py_bool c)"
proof -
  have "(FlowState_Empty self = Inr True) =
      (\<exists>c. (py_len (self_data self) = Inr 1 \<and> py_context (self_data self) = Inr c) \<and> \<not> py_bool c)"
    by (auto simp: FlowState_Empty_def split: sum.splits if_splits)
  then show ?thesis
    by (simp only: py_len_one_context)
qed

text \<open>
  Claim C4, as amended.  For a name \<open>f\<close> that is neither a member of the class nor an
  attribute of the instance, on a container whose \<open>data\<close> is a \<open>DataObject\<close>: assigning \<open>f\<close>
  raises the unregistered-field error exactly when \<open>f\<close> is not a key of the backing
  mapping, and succeeds exactly when it is; and, when no instance attribute hides the
  methods \<open>Register\<close> and \<open>get\<close>, after \<open>Register(f, v0)\<close> and \<open>Set(f, v)\<close>,
  \<open>Get(f, default)\<close> returns \<open>v\<close> (with \<open>f = "x"\<close>, \<open>v0 = 1\<close>, \<open>v = 2\<close>, \<open>default = 0\<close>: it
  returns \<open>2\<close>).
\<close>

theorem FlowState_setattr_unregistered:
  assumes "\<not> has_class_attr inherited f" and "f \<notin> fst ` set self"
    and "self_data self = PyDataObject d"
  shows "(FlowState_setattr inherited self f v = Inl Unregistered \<longleftrightarrow> f \<notin> fst ` set d)
       \<and> (\<exists>s'. FlowState_setattr inherited self f v = Inr s') = (f \<in> fst ` set d)
       \<and> (''Register'' \<notin> fst ` set self \<and> ''get'' \<notin> fst ` set self \<longrightarrow>
            Register_Set_Get inherited self f v0 v dflt = Inr v)"
proof -
  have ne: "f \<noteq> ''data''"
    using assms(1) data_is_class_attr by blast
  let ?s1 = "AList.update ''data'' (PyDataObject (AList.update f v0 d)) self"
  let ?s2 = "AList.update ''data'' (PyDataObject (AList.update f v (AList.update f v0 d))) ?s1"
  have r: "FlowState_Register self f v0 = Inr ?s1"
    by (rule FlowState_Register_data [OF assms(3)])
  have k: "f \<notin> fst ` set ?s1"
    using assms(2) ne by (simp add: keys_update)
  have d1: "self_data ?s1 = PyDataObject (AList.update f v0 d)" by simp
  have s: "FlowState_setattr inherited ?s1 f v = Inr ?s2"
    by (simp add: FlowState_setattr_field [OF assms(1) k d1] keys_update)
  have g: "Register_Set_Get inherited self f v0 v dflt = Inr v"
    if vis: "''Register'' \<notin> fst ` set self" "''get'' \<notin> fst ` set self"
  proof -
    have c1: "call_method self ''Register'' (FlowState_Register self f v0) = Inr ?s1"
      using vis(1) by (simp add: call_method_def r)
    have k2: "''get'' \<notin> fst ` set ?s2"
      using vis(2) by (simp add: keys_update)
    have c2: "call_method ?s2 ''get'' (FlowState_get ?s2 f dflt) = Inr v"
      using k2 by (simp add: call_method_def FlowState_get_def update_conv')
    show ?thesis
      by (simp only: Register_Set_Get_def c1 s c2 sum.case)
  qed
  show ?thesis
    using g by (simp add: FlowState_setattr_field [OF assms])
qed

theorem FlowState_setattr_unregistered_witness:
  "\<not> has_class_attr [''age'', ''classes''] ''x'' \<and> ''x'' \<notin> fst ` set FlowState_init
   \<and> self_data FlowState_init = PyDataObject []
   \<and> ''Register'' \<notin> fst ` set FlowState_init \<and> ''get'' \<notin> fst ` set FlowState_init
   \<and> FlowState_setattr [''age'', ''classes''] FlowState_init ''x'' (PyInt 2) = Inl Unregistered
   \<and> Register_Set_Get [''age'', ''classes''] FlowState_init ''x'' (PyInt 1) (PyInt 2) (PyInt 0) = Inr (PyInt 2)"
proof -
  have h: "\<not> has_class_attr [''age'', ''classes''] ''x''" "''x'' \<notin> fst ` set FlowState_init"
    "self_data FlowState_init = PyDataObject []"
    by (simp_all add: has_class_attr_def FlowState_class_attrs_def FlowState_init_def
        object_setattr_def self_data_def)
  have vis: "''Register'' \<notin> fst ` set FlowState_init" "''get'' \<notin> fst ` set FlowState_init"
    by (simp_all add: FlowState_init_def object_setattr_def)
  show ?thesis
    using h vis FlowState_setattr_unregistered [OF h, of "PyInt 2" "PyInt 1" "PyInt 0"] by simp
qed

text \<open>
  The claim as it is written, for every field name, fails at a member of the class
  (line 203 assigns those normally): \<open>data_store_type\<close> was never registered and is not
  in the backing mapping of a new container, and assigning it raises nothing.  Registered
  first, it keeps the registered value \<open>1\<close> in the mapping when \<open>2\<close> is assigned.
\<close>

theorem FlowState_setattr_unregistered_counterexample:
  "''data_store_type'' \<notin> fst ` set []
   \<and> self_data FlowState_init = PyDataObject []
   \<and> FlowState_setattr [] FlowState_init ''data_store_type'' (PyStr ''bytes'') =
       Inr [(''data'', PyDataObject []), (''data_store_type'', PyStr ''bytes'')]
   \<and> Register_Set_Get [] FlowState_init ''data_store_type'' (PyInt 1) (PyInt 2) (PyInt 0) =
       Inr (PyInt 1)"
  by (simp add: Register_Set_Get_def call_method_def FlowState_Register_def FlowState_get_def
      FlowState_setattr_def has_class_attr_def FlowState_class_attrs_def
      FlowState_init_def object_setattr_def self_data_def DataObject_setattr_def)

text \<open>
  Claim C5, as amended.  On a container whose \<open>data\<close> is a \<open>DataObject\<close> and on which no
  instance attribute hides the methods \<open>Register\<close> and \<open>get\<close>, for a registered field \<open>f\<close>
  (a key of the backing mapping) that is neither a member of the class nor an attribute
  of the instance: after \<open>Set(f, v)\<close>, \<open>Register(f, v0)\<close> overwrites the stored value, and
  \<open>Get(f, default)\<close> then returns \<open>v0\<close>, for every default.  On the backing mapping \<open>d\<close>
  itself, after \<open>d.f = v\<close> and \<open>DataObject.Register(d, f, v0)\<close> the item \<open>d[f]\<close> is \<open>v0\<close>.
\<close>

theorem Register_overwrites_written_value:
  assumes "\<not> has_class_attr inherited f" and "f \<notin> fst ` set self"
    and "self_data self = PyDataObject d" and "f \<in> fst ` set d"
    and "''Register'' \<notin> fst ` set self" and "''get'' \<notin> fst ` set self"
  shows "Set_Register_Get inherited self f v v0 dflt = Inr v0
       \<and> map_of (DataObject_Register (DataObject_setattr d f v) f v0) f = Some v0"
proof -
  let ?s1 = "AList.update ''data'' (PyDataObject (AList.update f v d)) self"
  let ?s2 = "AList.update ''data'' (PyDataObject (AList.update f v0 (AList.update f v d))) ?s1"
  have s: "FlowState_setattr inherited self f v = Inr ?s1"
    using assms(4) by (simp add: FlowState_setattr_field [OF assms(1-3)])
  have d1: "self_data ?s1 = PyDataObject (AList.update f v d)" by simp
  have k1: "''Register'' \<notin> fst ` set ?s1"
    using assms(5) by (simp add: keys_update)
  have c1: "call_method ?s1 ''Register'' (FlowState_Register ?s1 f v0) = Inr ?s2"
    using k1 by (simp add: call_method_def FlowState_Register_data [OF d1])
  have k2: "''get'' \<notin> fst ` set ?s2"
    using assms(6) by (simp add: keys_update)
  have c2: "call_method ?s2 ''get'' (FlowState_get ?s2 f dflt) = Inr v0"
    using k2 by (simp add: call_method_def FlowState_get_def update_conv')
  have g: "Set_Register_Get inherited self f v v0 dflt = Inr v0"
    by (simp only: Set_Register_Get_def s c1 c2 sum.case)
  have r: "map_of (DataObject_Register (DataObject_setattr d f v) f v0) f = Some v0"
    by (simp add: DataObject_Register_def update_conv')
  show ?thesis
    using g r by (rule conjI)
qed

theorem Register_overwrites_written_value_witness:
  "\<not> has_class_attr [] ''x'' \<and> ''x'' \<notin> fst ` set [(''data'', PyDataObject [(''x'', PyNone)])]
   \<and> self_data [(''data'', PyDataObject [(''x'', PyNone)])] = PyDataObject [(''x'', PyNone)]
   \<and> ''x'' \<in> fst ` set [(''x'', PyNone)]
   \<and> ''Register'' \<notin> fst ` set [(''data'', PyDataObject [(''x'', PyNone)])]
   \<and> ''get'' \<notin> fst ` set [(''data'', PyDataObject [(''x'', PyNone)])]
   \<and> Set_Register_Get [] [(''data'', PyDataObject [(''x'', PyNone)])] ''x'' (PyInt 2) (PyInt 1) (PyInt 0)
       = Inr (PyInt 1)"
proof -
  have h: "\<not> has_class_attr [] ''x''" "''x'' \<notin> fst ` set [(''data'', PyDataObject [(''x'', PyNone)])]"
    "self_data [(''data'', PyDataObject [(''x'', PyNone)])] = PyDataObject [(''x'', PyNone)]"
    "''x'' \<in> fst ` set [(''x'', PyNone)]"
    "''Register'' \<notin> fst ` set [(''data'', PyDataObject [(''x'', PyNone)])]"
    "''get'' \<notin> fst ` set [(''data'', PyDataObject [(''x'', PyNone)])]"
    by (simp_all add: has_class_attr_def FlowState_class_attrs_def self_data_def)
  show ?thesis
    using h Register_overwrites_written_value [OF h, of "PyInt 2" "PyInt 1" "PyInt 0"] by simp
qed

text \<open>
  The claim as it is written fails: with \<open>x\<close> registered, \<open>Set(x, 2)\<close> then
  \<open>Register(x, 1)\<close> makes \<open>Get(x, 0)\<close> return \<open>1\<close>, not the written \<open>2\<close>.
\<close>

theorem Register_overwrites_written_value_counterexample:
  "FlowState_Register FlowState_init ''x'' PyNone = Inr [(''data'', PyDataObject [(''x'', PyNone)])]
   \<and> Set_Register_Get [] [(''data'', PyDataObject [(''x'', PyNone)])] ''x'' (PyInt 2) (PyInt 1) (PyInt 0)
       = Inr (PyInt 1)
   \<and> PyInt 1 \<noteq> PyInt 2"
  by (simp add: Set_Register_Get_def call_method_def FlowState_setattr_def
      FlowState_Register_def FlowState_get_def has_class_attr_def FlowState_class_attrs_def
      FlowState_init_def object_setattr_def self_data_def DataObject_setattr_def)

text \<open>
  Claim C6, as amended.  \<open>Empty\<close> returns true exactly when \<open>data\<close> is a \<open>DataObject\<close> whose
  only item is \<open>context\<close> and the value of \<open>context\<close> is false in Python's sense (an empty
  mapping, for one); when \<open>context\<close> is the only item, \<open>Empty\<close> returns the negation of its
  truth value.  A container just constructed has no item at all and \<open>Empty\<close> returns false
  on it; once an empty \<open>context\<close> is registered on it, \<open>Empty\<close> returns true.
\<close>

theorem FlowState_Empty_iff:
  "(FlowState_Empty self = Inr True \<longleftrightarrow>
      (\<exists>c. self_data self = PyDataObject [(''context'', c)] \<and> \<not> py_bool c))
   \<and> FlowState_Empty (object_setattr self ''data'' (PyDataObject [(''context'', c)])) = Inr (\<not> py_bool c)
   \<and> FlowState_Empty FlowState_init = Inr False
   \<and> FlowState_Register FlowState_init ''context'' (PyDataObject []) =
       Inr [(''data'', PyDataObject [(''context'', PyDataObject [])])]
   \<and> FlowState_Empty [(''data'', PyDataObject [(''context'', PyDataObject [])])] = Inr True"
proof -
  have 1: "FlowState_Empty (object_setattr self ''data'' (PyDataObject [(''context'', c)])) = Inr (\<not> py_bool c)"
    by (simp add: FlowState_Empty_def object_setattr_def DataObject_getattr_def)
  have 2: "FlowState_Empty FlowState_init = Inr False"
    by (simp add: FlowState_Empty_def FlowState_init_def object_setattr_def self_data_def)
  have 3: "FlowState_Register FlowState_init ''context'' (PyDataObject []) =
       Inr [(''data'', PyDataObject [(''context'', PyDataObject [])])]"
    by (simp add: FlowState_Register_def FlowState_init_def object_setattr_def self_data_def
        DataObject_setattr_def)
  have 4: "FlowState_Empty [(''data'', PyDataObject [(''context'', PyDataObject [])])] = Inr True"
    by (simp add: FlowState_Empty_def self_data_def DataObject_getattr_def)
  show ?thesis
    using 1 2 3 4 by (simp only: FlowState_Empty_True simp_thms)
qed

text \<open>
  The claim as it is written fails twice: on a container whose only item is a \<open>context\<close>
  that holds something, and on a container just constructed.
\<close>

theorem FlowState_Empty_iff_counterexample:
  "FlowState_Empty [(''data'', PyDataObject [(''context'', PyDataObject [(''user'', PyStr ''test'')])])]
     = Inr False
   \<and> FlowState_Empty FlowState_init = Inr False"
  by (simp add: FlowState_Empty_def FlowState_init_def object_setattr_def self_data_def
      DataObject_getattr_def)



section \<open>Claims about GrrMessage\<close>




text \<open>
  Claim C7, as amended.  The getter returns nothing when \<open>args_rdf_name\<close> is empty; when
  the name is not in the registry it decodes the bytes as an \<open>RDFString\<close> and does not
  raise; when the name is registered it returns what the registered class decodes, and
  raises what that class raises.
\<close>

theorem payload_getter_cases:
  "(args_rdf_name m = [] \<longrightarrow> payload classes m = Inr None)
   \<and> (args_rdf_name m \<noteq> [] \<and> classes (args_rdf_name m) = None \<longrightarrow>
        payload classes m = Inr (Some (RDFString (args_age m) (args m))))
   \<and> (\<forall>c. args_rdf_name m \<noteq> [] \<and> classes (args_rdf_name m) = Some c \<longrightarrow>
        payload classes m =
          (case c (args_age m) (args m) of Inl e \<Rightarrow> Inl e | Inr r \<Rightarrow> Inr (Some r)))"
  by (simp add: payload_def RDFString_class_def)

theorem payload_getter_cases_witness:
  "args_rdf_name \<lparr>task_id = 1, priority = 0, args = ''abc'', args_age = Some 7, args_rdf_name = []\<rparr> = []
   \<and> payload (Map.empty :: string \<rightharpoonup> (int option \<times> FlowState) rdf_class)
        \<lparr>task_id = 1, priority = 0, args = ''abc'', args_age = Some 7, args_rdf_name = []\<rparr>
       = Inr None
   \<and> (Map.empty :: string \<rightharpoonup> (int option \<times> FlowState) rdf_class) ''Later'' = None
   \<and> payload (Map.empty :: string \<rightharpoonup> (int option \<times> FlowState) rdf_class)
        \<lparr>task_id = 1, priority = 0, args = ''abc'', args_age = Some 7, args_rdf_name = ''Later''\<rparr>
       = Inr (Some (RDFString (Some 7) ''abc''))
   \<and> payload (Map.empty(''FlowState'' \<mapsto> FlowState_class (\<lambda>s. Inr (PyDataObject [])) []))
        \<lparr>task_id = 1, priority = 0, args = ''abc'', args_age = Some 7, args_rdf_name = ''FlowState''\<rparr>
       = Inr (Some (Registered (Some 7, [(''data'', PyDataObject [])])))"
proof -
  let ?none = "Map.empty :: string \<rightharpoonup> (int option \<times> FlowState) rdf_class"
  let ?reg = "Map.empty(''FlowState'' \<mapsto> FlowState_class (\<lambda>s. Inr (PyDataObject [])) [])"
  let ?m0 = "\<lparr>task_id = 1, priority = 0, args = ''abc'', args_age = Some 7, args_rdf_name = []\<rparr>"
  let ?m1 = "\<lparr>task_id = 1, priority = 0, args = ''abc'', args_age = Some 7, args_rdf_name = ''Later''\<rparr>"
  let ?m2 = "\<lparr>task_id = 1, priority = 0, args = ''abc'', args_age = Some 7, args_rdf_name = ''FlowState''\<rparr>"
  have c: "FlowState_class (\<lambda>s. Inr (PyDataObject [])) [] (Some 7) ''abc''
      = Inr (Registered (Some 7, [(''data'', PyDataObject [])]))"
    by (simp add: FlowState_class_def FlowState_ParseFromString_def pickle_loads_def
        FlowState_setattr_def has_class_attr_def FlowState_class_attrs_def
        FlowState_init_def object_setattr_def)
  show ?thesis
    using payload_getter_cases [of ?m0 ?none] payload_getter_cases [of ?m1 ?none]
      payload_getter_cases [of ?m2 ?reg] c
    by simp
qed

text \<open>
  The claim as it is written says the getter never raises.  It raises when the registered
  class cannot decode the bytes: \<open>FlowState\<close> is such a class, the empty string is not a
  pickle, and \<open>FlowState.ParseFromString\<close> raises \<open>DecodeError\<close>.
\<close>

theorem payload_getter_cases_counterexample:
  "payload (Map.empty(''FlowState'' \<mapsto> FlowState_class (\<lambda>s. Inr (PyStr s)) []))
     \<lparr>task_id = 1, priority = 0, args = [], args_age = None, args_rdf_name = ''FlowState''\<rparr>
   = Inl DecodeError"
  by (simp add: payload_def FlowState_class_def FlowState_ParseFromString_def pickle_loads_def)

end
